theory Spec2Isabelle
  imports Complex_Main
begin

section \<open>The generalised Fibonacci recurrence of the notebook\<close>

text \<open>
  The notebook \<^verbatim>\<open>fibonacci-musings.ipynb\<close> defines two functions in its first code cell:

  \<^verbatim>\<open>@lru_cache(maxsize=None)\<close>
  \<^verbatim>\<open>def fib(n, f0, f1):\<close>
  \<^verbatim>\<open>    prev, curr = f0, f1\<close>
  \<^verbatim>\<open>    for _ in range(n):\<close>
  \<^verbatim>\<open>        prev, curr = curr, prev + curr\<close>
  \<^verbatim>\<open>    return prev\<close>

  \<^verbatim>\<open>def fib_lim(n, f0, f1):\<close>
  \<^verbatim>\<open>    return fib(n, f0, f1)/fib(n - 1, f0, f1)\<close>

  The index \<open>n\<close> is a Python integer (\<^typ>\<open>int\<close>), the seeds are numbers, embedded
  as \<^typ>\<open>real\<close>: addition and division are the exact ones, the rounding of
  Python's floats is not part of the model. The memoising decorator caches a pure function
  and does not change any returned value, so it does not appear.
\<close>

subsection \<open>Errors\<close>

text \<open>
  The only exception a call on numbers can raise is Python's \<open>ZeroDivisionError\<close>, from
  the division in \<open>fib_lim\<close>. \<open>InvalidArgument\<close> is the second condition of the
  specification's taxonomy; no path of the source raises it, the constructor exists so that
  statements about it can be written down.
\<close>

datatype error = ZeroDivisionError | InvalidArgument

subsection \<open>The loop\<close>

text \<open>Python's \<open>range(n)\<close>: the integers \<open>0, ..., n - 1\<close>, none when \<open>n \<le> 0\<close>.\<close>

definition range_py :: "int \<Rightarrow> int list" where
  "range_py n = [0..n - 1]"

text \<open>One execution of the loop body, \<open>prev, curr = curr, prev + curr\<close>; the loop
  variable is ignored (\<open>cur\<close> stands for the source's \<open>curr\<close>).\<close>

definition fib_step :: "int \<Rightarrow> real \<times> real \<Rightarrow> real \<times> real" where
  "fib_step i pc = (case pc of (prev, cur) \<Rightarrow> (cur, prev + cur))"

text \<open>The state \<open>(prev, curr)\<close> after the whole \<open>for\<close> loop.\<close>

definition fib_loop :: "int \<Rightarrow> real \<Rightarrow> real \<Rightarrow> real \<times> real" where
  "fib_loop n f0 f1 = fold fib_step (range_py n) (f0, f1)"

definition fib :: "int \<Rightarrow> real \<Rightarrow> real \<Rightarrow> real" where
  "fib n f0 f1 = fst (fib_loop n f0 f1)"

text \<open>\<open>fib_lim\<close>: both terms are computed first, then the division raises
  \<open>ZeroDivisionError\<close> on a zero denominator.\<close>

definition fib_lim :: "int \<Rightarrow> real \<Rightarrow> real \<Rightarrow> error + real" where
  "fib_lim n f0 f1 =
     (let num = fib n f0 f1; den = fib (n - 1) f0 f1
      in if den = 0 then Inl ZeroDivisionError else Inr (num / den))"

text \<open>The constant of the third code cell, \<^verbatim>\<open>phi = (1 + sqrt(5))/2\<close>.\<close>

definition phi :: real where
  "phi = (1 + sqrt 5) / 2"

section \<open>Properties of the loop\<close>

lemma range_py_nonpos: "n \<le> 0 \<Longrightarrow> range_py n = []"
  by (simp add: range_py_def)

lemma range_py_snoc: "0 \<le> n \<Longrightarrow> range_py (n + 1) = range_py n @ [n]"
  using upto_rec2 [of 0 n] by (simp add: range_py_def)

lemma fib_loop_nonpos: "n \<le> 0 \<Longrightarrow> fib_loop n f0 f1 = (f0, f1)"
  by (simp add: fib_loop_def range_py_nonpos)

lemma fib_loop_snoc: "0 \<le> n \<Longrightarrow> fib_loop (n + 1) f0 f1 = fib_step n (fib_loop n f0 f1)"
  by (simp add: fib_loop_def range_py_snoc)

lemma fib_nonpos: "n \<le> 0 \<Longrightarrow> fib n f0 f1 = f0"
  by (simp add: fib_def fib_loop_nonpos)

lemma fib_succ: "0 \<le> n \<Longrightarrow> fib (n + 1) f0 f1 = snd (fib_loop n f0 f1)"
  by (simp add: fib_def fib_loop_snoc fib_step_def split: prod.split)

lemma fib_succ_succ: "0 \<le> n \<Longrightarrow> fib (n + 2) f0 f1 = fib (n + 1) f0 f1 + fib n f0 f1"
proof -
  assume n: "0 \<le> n"
  have "fib (n + 2) f0 f1 = snd (fib_loop (n + 1) f0 f1)"
    using fib_succ [of "n + 1" f0 f1] n by (simp add: add.assoc)
  also have "\<dots> = fst (fib_loop n f0 f1) + snd (fib_loop n f0 f1)"
    using n by (simp add: fib_loop_snoc fib_step_def split: prod.split)
  also have "\<dots> = fib n f0 f1 + fib (n + 1) f0 f1"
    using n by (simp add: fib_succ) (simp add: fib_def)
  finally show ?thesis
    by simp
qed

lemma fib_one: "fib 1 f0 f1 = f1"
  using fib_succ [of 0 f0 f1] by (simp add: fib_loop_nonpos)

text \<open>The definitions a concrete call unfolds to.\<close>

lemmas fib_eval = fib_lim_def fib_def fib_loop_def range_py_def fib_step_def upto.simps

subsection \<open>Linearity in the seeds\<close>

lemma fib_loop_linear:
  "fib_loop n (\<alpha> * a0 + \<beta> * b0) (\<alpha> * a1 + \<beta> * b1) =
     (\<alpha> * fst (fib_loop n a0 a1) + \<beta> * fst (fib_loop n b0 b1),
      \<alpha> * snd (fib_loop n a0 a1) + \<beta> * snd (fib_loop n b0 b1))"
proof (cases "0 \<le> n")
  case True
  then show ?thesis
  proof (induction n rule: int_ge_induct)
    case base
    show ?case by (simp add: fib_loop_nonpos)
  next
    case (step i)
    then show ?case
      by (simp add: fib_loop_snoc fib_step_def ring_distribs split: prod.split)
  qed
next
  case False
  then show ?thesis by (simp add: fib_loop_nonpos)
qed

lemma fib_linear_all:
  "fib n (\<alpha> * a0 + \<beta> * b0) (\<alpha> * a1 + \<beta> * b1) = \<alpha> * fib n a0 a1 + \<beta> * fib n b0 b1"
  by (simp add: fib_def fib_loop_linear)

lemma fib_scale: "fib n (c * f0) (c * f1) = c * fib n f0 f1"
  using fib_linear_all [of n c f0 0 0 f1 0] by simp

subsection \<open>Bounds on the golden ratio\<close>

lemma phi_lower: "1.61803398 < phi"
proof -
  have "2.23606796 < sqrt 5"
    by (rule real_less_rsqrt) (simp add: power2_eq_square)
  then show ?thesis by (simp add: phi_def)
qed

lemma phi_upper: "phi < 1.61803399"
proof -
  have "sqrt 5 < 2.23606798"
    by (rule real_less_lsqrt) (simp_all add: power2_eq_square)
  then show ?thesis by (simp add: phi_def)
qed


section \<open>The claims\<close>

text \<open>
  C1. Base cases: for all seeds, \<open>fib 0 f0 f1\<close> is exactly \<open>f0\<close> and
  \<open>fib 1 f0 f1\<close> is exactly \<open>f1\<close>.
\<close>

theorem fib_base_cases: "fib 0 f0 f1 = f0 \<and> fib 1 f0 f1 = f1"
  by (simp add: fib_nonpos fib_one)

text \<open>
  C2. Recurrence law: for every index \<open>n \<ge> 2\<close> and all seeds, the term at \<open>n\<close>
  is the sum of the terms at \<open>n - 1\<close> and \<open>n - 2\<close>.
\<close>

theorem fib_recurrence:
  "2 \<le> n \<Longrightarrow> fib n f0 f1 = fib (n - 1) f0 f1 + fib (n - 2) f0 f1"
  using fib_succ_succ [of "n - 2" f0 f1] by simp

theorem fib_recurrence_witness:
  "(2::int) \<le> 5 \<and> fib 5 2 3 = fib (5 - 1) 2 3 + fib (5 - 2) 2 3 \<and> fib 5 2 3 = 21"
  using fib_recurrence [of 5 2 3] by (simp add: fib_eval)

text \<open>
  C3. Ratio contract: for every index \<open>n \<ge> 1\<close> and all seeds whose term at
  \<open>n - 1\<close> is not zero, \<open>fib_lim\<close> returns the term at \<open>n\<close> divided by the
  term at \<open>n - 1\<close>.
\<close>

theorem fib_lim_ratio:
  "1 \<le> n \<Longrightarrow> fib (n - 1) f0 f1 \<noteq> 0 \<Longrightarrow>
     fib_lim n f0 f1 = Inr (fib n f0 f1 / fib (n - 1) f0 f1)"
  by (simp add: fib_lim_def)

theorem fib_lim_ratio_witness:
  "(1::int) \<le> 3 \<and> fib (3 - 1) 2 3 \<noteq> 0 \<and> fib_lim 3 2 3 = Inr (fib 3 2 3 / fib (3 - 1) 2 3)
     \<and> fib_lim 3 2 3 = Inr (8 / 5)"
proof -
  have den: "fib (3 - 1) 2 3 \<noteq> 0"
    by (simp add: fib_eval)
  have "fib_lim 3 2 3 = Inr (fib 3 2 3 / fib (3 - 1) 2 3)"
    using fib_lim_ratio [of 3 2 3] den by simp
  moreover have "fib 3 2 3 / fib (3 - 1) 2 3 = 8 / 5"
    by (simp add: fib_eval)
  ultimately show ?thesis
    using den by simp
qed

text \<open>
  C4. Division by zero: \<open>fib_lim n f0 f1\<close> fails with \<open>ZeroDivisionError\<close> exactly
  when the term at \<open>n - 1\<close> is zero; in particular \<open>fib_lim 1 0 5\<close> fails with it,
  the term at index 0 being the seed 0.
\<close>

theorem fib_lim_zero_division:
  "(fib_lim n f0 f1 = Inl ZeroDivisionError) = (fib (n - 1) f0 f1 = 0)
     \<and> fib_lim 1 0 5 = Inl ZeroDivisionError"
  by (simp add: fib_lim_def Let_def fib_nonpos)

text \<open>
  C5. The claim reads: \<open>fib n f0 f1\<close> fails with \<open>InvalidArgument\<close> for every
  \<open>n < 0\<close> (in particular at \<open>n = - 1\<close>, seeds 0 and 1), and \<open>fib_lim n f0 f1\<close>
  fails with \<open>InvalidArgument\<close> for every \<open>n < 1\<close>. The source validates no
  argument: \<open>fib (- 1) 0 1\<close> returns 0, and \<open>fib_lim 0 1 1\<close> returns 1.
\<close>

theorem fib_invalid_argument_counterexample:
  "fib (- 1) 0 1 = 0 \<and> fib_lim 0 1 1 = Inr 1 \<and> fib_lim 0 1 1 \<noteq> Inl InvalidArgument"
  by (simp add: fib_eval)

text \<open>
  C5, amended. For every \<open>n < 0\<close> the call \<open>fib n f0 f1\<close> returns \<open>f0\<close>; for every
  \<open>n < 1\<close> the call \<open>fib_lim n f0 f1\<close> divides \<open>f0\<close> by \<open>f0\<close>: it returns 1
  when \<open>f0\<close> is not zero and fails with \<open>ZeroDivisionError\<close> when it is; and
  \<open>fib_lim\<close> fails with \<open>InvalidArgument\<close> at no index.
\<close>

theorem fib_no_argument_check:
  "(n < 0 \<longrightarrow> fib n f0 f1 = f0)
     \<and> (n < 1 \<longrightarrow> fib_lim n f0 f1 = (if f0 = 0 then Inl ZeroDivisionError else Inr 1))
     \<and> fib_lim n f0 f1 \<noteq> Inl InvalidArgument"
  by (simp add: fib_lim_def Let_def fib_nonpos)

theorem fib_no_argument_check_witness:
  "(- 1 :: int) < 0 \<and> fib (- 1) 7 2 = 7 \<and> (- 1 :: int) < 1 \<and> fib_lim (- 1) 7 2 = Inr 1
     \<and> fib_lim (- 1) 7 2 \<noteq> Inl InvalidArgument"
  using fib_no_argument_check [of "- 1" 7 2] by simp

text \<open>
  C6. The claim reads: \<open>fib_lim 30 4 (- 2.47214)\<close> is within \<open>1/10\<^sup>3\<close> of
  \<open>0.618034\<close> (and not of \<open>1.618...\<close>). The rounded seed \<open>- 2.47214\<close> is not on the
  exceptional axis, and the call returns \<open>168280 / 104003\<close>, about \<open>1.61803\<close>.
\<close>

theorem fib_lim_exceptional_counterexample:
  "fib_lim 30 4 (- 2.47214) = Inr (168280 / 104003)
     \<and> \<not> \<bar>168280 / 104003 - 0.618034\<bar> < (1 / 10 ^ 3 :: real)"
  by (simp add: fib_eval)

text \<open>
  C6, amended. \<open>fib_lim 30 4 (- 2.47214)\<close> is within \<open>1/10\<^sup>3\<close> of \<open>1.618034\<close>
  (and not of \<open>0.618034\<close>). At the seed the notebook's third cell passes for
  \<^verbatim>\<open>-f0/phi\<close> with \<open>f0 = 4\<close>, the double \<open>- 5566755282872655 / 2\<^sup>5\<^sup>1\<close>
  (\<^verbatim>\<open>-2.472135954999579\<close>), \<open>fib_lim 30 4\<close> returns
  \<open>- 4841708968 / 7833099483\<close>, the \<^verbatim>\<open>-0.618109\<close> of the notebook's table, which is
  within \<open>1/10\<^sup>3\<close> of \<open>- 0.618034\<close>: the sign is negative.
\<close>

theorem fib_lim_exceptional:
  "fib_lim 30 4 (- 2.47214) = Inr (168280 / 104003)
     \<and> \<bar>168280 / 104003 - 1.618034\<bar> < (1 / 10 ^ 3 :: real)
     \<and> \<not> \<bar>168280 / 104003 - 0.618034\<bar> < (1 / 10 ^ 3 :: real)
     \<and> fib_lim 30 4 (- 5566755282872655 / 2 ^ 51) = Inr (- 4841708968 / 7833099483)
     \<and> \<bar>- 4841708968 / 7833099483 - (- 0.618034)\<bar> < (1 / 10 ^ 3 :: real)"
proof -
  have "fib_lim 30 4 (- 2.47214) = Inr (168280 / 104003)"
    by (simp add: fib_eval)
  moreover have "\<bar>168280 / 104003 - 1.618034\<bar> < (1 / 10 ^ 3 :: real)"
    by simp
  moreover have "\<not> \<bar>168280 / 104003 - 0.618034\<bar> < (1 / 10 ^ 3 :: real)"
    by simp
  moreover have "fib_lim 30 4 (- 5566755282872655 / 2 ^ 51) = Inr (- 4841708968 / 7833099483)"
    by (simp add: fib_eval)
  moreover have "\<bar>- 4841708968 / 7833099483 - (- 0.618034)\<bar> < (1 / 10 ^ 3 :: real)"
    by simp
  ultimately show ?thesis
    by blast
qed

text \<open>
  C7. Golden-ratio convergence: for the seeds \<open>(1, 1)\<close>, \<open>fib_lim 30 1 1\<close> is
  \<open>1346269 / 832040\<close>, within \<open>1/10\<^sup>6\<close> of \<open>1.6180339887\<close> and of \<open>phi\<close>.
\<close>

theorem fib_lim_golden:
  "fib_lim 30 1 1 = Inr (1346269 / 832040)
     \<and> \<bar>1346269 / 832040 - 1.6180339887\<bar> < (1 / 10 ^ 6 :: real)
     \<and> \<bar>1346269 / 832040 - phi\<bar> < 1 / 10 ^ 6"
proof -
  have "fib_lim 30 1 1 = Inr (1346269 / 832040)"
    by (simp add: fib_eval)
  moreover have "\<bar>1346269 / 832040 - 1.6180339887\<bar> < (1 / 10 ^ 6 :: real)"
    by simp
  moreover have "\<bar>1346269 / 832040 - phi\<bar> < 1 / 10 ^ 6"
  proof -
    have "1346269 / 832040 - phi < 1 / 10 ^ 6"
      using phi_lower by (simp add: field_simps)
    moreover have "- (1346269 / 832040 - phi) < 1 / 10 ^ 6"
      using phi_upper by (simp add: field_simps)
    ultimately show ?thesis
      by (simp only: abs_less_iff)
  qed
  ultimately show ?thesis
    by blast
qed

text \<open>
  C8. Linearity: for every index \<open>n \<ge> 0\<close>, all seed pairs \<open>(a0, a1)\<close> and
  \<open>(b0, b1)\<close> and all scalars \<open>\<alpha>\<close>, \<open>\<beta>\<close>, the term of the combined seeds is the
  same combination of the terms.
\<close>

theorem fib_linear:
  "0 \<le> n \<Longrightarrow>
     fib n (\<alpha> * a0 + \<beta> * b0) (\<alpha> * a1 + \<beta> * b1) = \<alpha> * fib n a0 a1 + \<beta> * fib n b0 b1"
  by (rule fib_linear_all)

theorem fib_linear_witness:
  "(0::int) \<le> 6 \<and> fib 6 (2 * 1 + 3 * 4) (2 * 1 + 3 * (- 2)) = 2 * fib 6 1 1 + 3 * fib 6 4 (- 2)
     \<and> fib 6 (2 * 1 + 3 * 4) (2 * 1 + 3 * (- 2)) = 38"
proof -
  have "fib 6 (2 * 1 + 3 * 4) (2 * 1 + 3 * (- 2)) = 2 * fib 6 1 1 + 3 * fib 6 4 (- 2)"
    using fib_linear [of 6 2 1 3 4 1 "- 2"] by simp
  moreover have "2 * fib 6 1 1 + 3 * fib 6 4 (- 2) = 38"
    by (simp add: fib_eval)
  ultimately show ?thesis
    by simp
qed

text \<open>
  C9. Non-positive index: for every \<open>n \<le> 0\<close> and all seeds, \<open>range n\<close> is empty, the
  loop body runs no time, the state stays \<open>(f0, f1)\<close> and \<open>fib\<close> returns \<open>f0\<close>,
  a value and not an error; in particular \<open>fib (- 1) 0 1\<close> returns 0.
\<close>

theorem fib_nonpositive_index:
  "(n \<le> 0 \<longrightarrow> range_py n = [] \<and> fib_loop n f0 f1 = (f0, f1) \<and> fib n f0 f1 = f0)
     \<and> fib (- 1) 0 1 = 0"
  by (simp add: range_py_nonpos fib_loop_nonpos fib_nonpos)

theorem fib_nonpositive_index_witness:
  "(- 3 :: int) \<le> 0 \<and> range_py (- 3) = [] \<and> fib_loop (- 3) 7 2 = (7, 2) \<and> fib (- 3) 7 2 = 7"
  using fib_nonpositive_index [of "- 3" 7 2] by simp

text \<open>
  C10. Scale invariance of the ratio: for every index \<open>n \<ge> 1\<close>, every scalar
  \<open>c \<noteq> 0\<close> and all seeds whose term at \<open>n - 1\<close> is not zero, scaling both seeds by
  \<open>c\<close> leaves the result of \<open>fib_lim\<close> unchanged.
\<close>

theorem fib_lim_scale:
  "1 \<le> n \<Longrightarrow> c \<noteq> 0 \<Longrightarrow> fib (n - 1) f0 f1 \<noteq> 0 \<Longrightarrow>
     fib_lim n (c * f0) (c * f1) = fib_lim n f0 f1"
  by (simp add: fib_lim_def fib_scale)

theorem fib_lim_scale_witness:
  "(1::int) \<le> 3 \<and> (7::real) \<noteq> 0 \<and> fib (3 - 1) 2 3 \<noteq> 0
     \<and> fib_lim 3 (7 * 2) (7 * 3) = fib_lim 3 2 3 \<and> fib_lim 3 2 3 = Inr (8 / 5)"
proof -
  have den: "fib (3 - 1) 2 3 \<noteq> 0"
    by (simp add: fib_eval)
  have "fib_lim 3 (7 * 2) (7 * 3) = fib_lim 3 2 3"
    using fib_lim_scale [of 3 7 2 3] den by simp
  moreover have "fib_lim 3 2 3 = Inr (8 / 5)"
    by (simp add: fib_eval)
  ultimately show ?thesis
    using den by simp
qed

end
